theory Spec2Isabelle
  imports Main
begin

section \<open>JavaScript values and objects\<close>

text \<open>
  The function under study, \<open>legacyOptionsToPluginOptions\<close> of
  \<open>plugin/usageReporting/legacyOptions.ts\<close>, receives the legacy \<open>engine\<close> option object
  and builds the options object of the usage reporting plugin. TypeScript types are erased
  at run time, and the function itself tests values with \<open>typeof\<close>, \<open>Array.isArray\<close>,
  \<open>!== null\<close> and truthiness, so the model works on run-time values.

  A function value is either one supplied from outside (identified by a number) or the
  arrow function \<open>() => new GraphQLError('<masked>')\<close> that the code itself creates.
  Numbers are the integers and \<open>NaN\<close>; that is all the code can tell apart, through
  truthiness. The \<open>engine\<close> object is a plain extensible object with data properties, so
  that a read has no effect and \<open>delete\<close> removes the property.
\<close>

datatype closure = External nat | MaskedRewrite

datatype jsval =
    JUndefined
  | JNull
  | JBool bool
  | JNum int
  | JNaN
  | JStr string
  | JArr "jsval list"
  | JObj "(string \<times> jsval) list"
  | JFun closure

text \<open>A plain object with string keys: a key is absent (\<open>None\<close>) or holds a value.\<close>

type_synonym jsobject = "string \<rightharpoonup> jsval"

text \<open>Property read \<open>o.k\<close>: an absent property reads as \<open>undefined\<close>.\<close>

definition get :: "jsobject \<Rightarrow> string \<Rightarrow> jsval" where
  "get obj k = (case obj k of None \<Rightarrow> JUndefined | Some v \<Rightarrow> v)"


text \<open>The conversion to boolean that \<open>if\<close>, \<open>&&\<close> and \<open>? :\<close> apply to a value.\<close>

fun truthy :: "jsval \<Rightarrow> bool" where
  "truthy JUndefined = False"
| "truthy JNull = False"
| "truthy (JBool b) = b"
| "truthy (JNum n) = (n \<noteq> 0)"
| "truthy JNaN = False"
| "truthy (JStr s) = (s \<noteq> [])"
| "truthy (JArr xs) = True"
| "truthy (JObj kvs) = True"
| "truthy (JFun f) = True"

fun typeof :: "jsval \<Rightarrow> string" where
  "typeof JUndefined = ''undefined''"
| "typeof JNull = ''object''"
| "typeof (JBool b) = ''boolean''"
| "typeof (JNum n) = ''number''"
| "typeof JNaN = ''number''"
| "typeof (JStr s) = ''string''"
| "typeof (JArr xs) = ''object''"
| "typeof (JObj kvs) = ''object''"
| "typeof (JFun f) = ''function''"

text \<open>\<open>Array.isArray\<close>.\<close>

fun isArray :: "jsval \<Rightarrow> bool" where
  "isArray (JArr xs) = True"
| "isArray v = False"

text \<open>The operator \<open>a ?? b\<close>: \<open>b\<close> when \<open>a\<close> is \<open>null\<close> or \<open>undefined\<close>, else \<open>a\<close>.\<close>

fun nullish :: "jsval \<Rightarrow> jsval \<Rightarrow> jsval" where
  "nullish JUndefined b = b"
| "nullish JNull b = b"
| "nullish a b = a"

text \<open>\<open>throw new Error(message)\<close>.\<close>

datatype error = Error string



section \<open>The translation of the legacy options\<close>

text \<open>Lines 365 to 375.\<close>

definition makeSendValuesBaseOptionsFromLegacy :: "jsval \<Rightarrow> jsval" where
  "makeSendValuesBaseOptionsFromLegacy legacyPrivateOption =
     (if isArray legacyPrivateOption then JObj [(''exceptNames'', legacyPrivateOption)]
      else if truthy legacyPrivateOption then JObj [(''none'', JBool True)]
      else JObj [(''all'', JBool True)])"

text \<open>
  The messages of the \<open>throw\<close> statements at lines 312, 328 and 345, as the source
  has them; the message for \<open>privateHeaders\<close> at line 346 names \<open>privateVariables\<close>.
\<close>

definition msg_mask_rewrite :: string where
  "msg_mask_rewrite = ''Can't set both maskErrorDetails and rewriteError!''"

definition msg_private_variables :: string where
  "msg_private_variables =
     ''You have set both the 'sendVariableValues' and the deprecated 'privateVariables' options. ''
     @ ''Please only set 'sendVariableValues' (ideally, when calling `ApolloServerPluginUsageReporting` ''
     @ ''instead of the deprecated `engine` option to the `ApolloServer` constructor).''"

definition msg_private_headers :: string where
  "msg_private_headers =
     ''You have set both the 'sendHeaders' and the deprecated 'privateVariables' options. ''
     @ ''Please only set 'sendHeaders' (ideally, when calling `ApolloServerPluginUsageReporting` ''
     @ ''instead of the deprecated `engine` option to the `ApolloServer` constructor).''"

text \<open>
  Lines 288 to 308: the new object and the assignments that copy properties. Every
  assignment creates the property, also when the value read is \<open>undefined\<close>.
\<close>

definition copyOptions :: "jsobject \<Rightarrow> jsobject" where
  "copyOptions engine =
     (let p = Map.empty;
          p = p(''calculateSignature'' \<mapsto> get engine ''calculateSignature'');
          p = p(''reportIntervalMs'' \<mapsto> get engine ''reportIntervalMs'');
          p = p(''maxUncompressedReportSize'' \<mapsto> get engine ''maxUncompressedReportSize'');
          p = p(''endpointUrl'' \<mapsto>
                  nullish (get engine ''tracesEndpointUrl'') (get engine ''endpointUrl''));
          p = p(''debugPrintReports'' \<mapsto> get engine ''debugPrintReports'');
          p = p(''requestAgent'' \<mapsto> get engine ''requestAgent'');
          p = p(''maxAttempts'' \<mapsto> get engine ''maxAttempts'');
          p = p(''minimumRetryDelayMs'' \<mapsto> get engine ''minimumRetryDelayMs'');
          p = p(''reportErrorFunction'' \<mapsto> get engine ''reportErrorFunction'');
          p = p(''sendVariableValues'' \<mapsto> get engine ''sendVariableValues'');
          p = (if typeof (get engine ''reportTiming'') = ''function''
               then p(''includeRequest'' \<mapsto> get engine ''reportTiming'') else p);
          p = p(''sendHeaders'' \<mapsto> get engine ''sendHeaders'');
          p = p(''sendReportsImmediately'' \<mapsto> get engine ''sendReportsImmediately'')
      in p)"

text \<open>
  Lines 311 to 321: the legacy option \<open>maskErrorDetails\<close>. The third branch deletes the
  property from the object it was given, so the step returns the \<open>engine\<close> object too.
\<close>

definition normalizeMaskErrorDetails ::
  "jsobject \<Rightarrow> jsobject \<Rightarrow> error + (jsobject \<times> jsobject)" where
  "normalizeMaskErrorDetails engine p =
     (if truthy (get engine ''maskErrorDetails'') \<and> truthy (get engine ''rewriteError'')
      then Inl (Error msg_mask_rewrite)
      else if truthy (get engine ''rewriteError'')
              \<and> typeof (get engine ''rewriteError'') \<noteq> ''function''
      then Inl (Error ''rewriteError must be a function'')
      else
        (let (engine, p) =
               (if truthy (get engine ''maskErrorDetails'')
                then (engine(''maskErrorDetails'' := None),
                      p(''rewriteError'' \<mapsto> JFun MaskedRewrite))
                else if truthy (get engine ''rewriteError'')
                then (engine, p(''rewriteError'' \<mapsto> get engine ''rewriteError''))
                else (engine, p))
         in Inr (engine, p(''generateClientInfo'' \<mapsto> get engine ''generateClientInfo''))))"

text \<open>Lines 324 to 341: the legacy option \<open>privateVariables\<close>.\<close>

definition handlePrivateVariables :: "jsobject \<Rightarrow> jsobject \<Rightarrow> error + jsobject" where
  "handlePrivateVariables engine p =
     (if typeof (get engine ''privateVariables'') \<noteq> ''undefined''
         \<and> truthy (get engine ''sendVariableValues'')
      then Inl (Error msg_private_variables)
      else if typeof (get engine ''privateVariables'') \<noteq> ''undefined''
      then (if get engine ''privateVariables'' \<noteq> JNull
            then Inr (p(''sendVariableValues'' \<mapsto>
                          makeSendValuesBaseOptionsFromLegacy (get engine ''privateVariables'')))
            else Inr p)
      else Inr (p(''sendVariableValues'' \<mapsto> get engine ''sendVariableValues'')))"

text \<open>Lines 344 to 358: the legacy option \<open>privateHeaders\<close>.\<close>

definition handlePrivateHeaders :: "jsobject \<Rightarrow> jsobject \<Rightarrow> error + jsobject" where
  "handlePrivateHeaders engine p =
     (if typeof (get engine ''privateHeaders'') \<noteq> ''undefined''
         \<and> truthy (get engine ''sendHeaders'')
      then Inl (Error msg_private_headers)
      else if typeof (get engine ''privateHeaders'') \<noteq> ''undefined''
      then (if get engine ''privateHeaders'' \<noteq> JNull
            then Inr (p(''sendHeaders'' \<mapsto>
                          makeSendValuesBaseOptionsFromLegacy (get engine ''privateHeaders'')))
            else Inr p)
      else Inr (p(''sendHeaders'' \<mapsto> get engine ''sendHeaders'')))"

text \<open>
  Lines 285 to 360. The result is the \<open>engine\<close> object as the call leaves it, paired with
  the error thrown or the object returned.
\<close>

definition legacyOptionsToPluginOptions :: "jsobject \<Rightarrow> jsobject \<times> (error + jsobject)" where
  "legacyOptionsToPluginOptions engine =
     (case normalizeMaskErrorDetails engine (copyOptions engine) of
        Inl e \<Rightarrow> (engine, Inl e)
      | Inr (engine', p) \<Rightarrow>
          (case handlePrivateVariables engine' p of
             Inl e \<Rightarrow> (engine', Inl e)
           | Inr p' \<Rightarrow>
               (case handlePrivateHeaders engine' p' of
                  Inl e \<Rightarrow> (engine', Inl e)
                | Inr p'' \<Rightarrow> (engine', Inr p''))))"

text \<open>
  The properties that lines 292 to 321 and the last branches of lines 340 and 357 assign
  to the new object from the property of \<open>engine\<close> with the same name.
\<close>

definition passThroughFields :: "string list" where
  "passThroughFields =
     [''calculateSignature'', ''reportIntervalMs'', ''maxUncompressedReportSize'',
      ''debugPrintReports'', ''requestAgent'', ''maxAttempts'', ''minimumRetryDelayMs'',
      ''reportErrorFunction'', ''sendVariableValues'', ''sendHeaders'',
      ''sendReportsImmediately'', ''generateClientInfo'']"

text \<open>
  The schema reporting and logging members of the interface \<open>EngineReportingOptions\<close>,
  lines 206 to 266.
\<close>

definition schemaReportingFields :: "string list" where
  "schemaReportingFields =
     [''reportSchema'', ''overrideReportedSchema'', ''schemaReportingInitialDelayMaxMs'',
      ''schemaReportingUrl'', ''logger'', ''experimental_schemaReporting'',
      ''experimental_overrideReportedSchema'',
      ''experimental_schemaReportingInitialDelayMaxMs'']"

section \<open>Auxiliary facts\<close>

subsection \<open>Property reads\<close>

lemma get_upd: "get (m(k \<mapsto> v)) k' = (if k' = k then v else get m k')"
  by (simp add: get_def)

lemma get_del: "get (m(k := None)) k' = (if k' = k then JUndefined else get m k')"
  by (simp add: get_def)

lemma get_empty: "get Map.empty k = JUndefined"
  by (simp add: get_def)

lemma typeof_undefined_iff: "(typeof v = ''undefined'') = (v = JUndefined)"
  by (cases v) simp_all

lemma typeof_function_iff: "(typeof v = ''function'') = (\<exists>f. v = JFun f)"
  by (cases v) simp_all


lemma mask_Inl:
  "normalizeMaskErrorDetails e p = Inl err \<longleftrightarrow>
     (if truthy (get e ''maskErrorDetails'') \<and> truthy (get e ''rewriteError'')
      then err = Error msg_mask_rewrite
      else truthy (get e ''rewriteError'') \<and> typeof (get e ''rewriteError'') \<noteq> ''function''
           \<and> err = Error ''rewriteError must be a function'')"
  by (auto simp: normalizeMaskErrorDetails_def split: prod.splits)

lemma mask_Inr:
  "normalizeMaskErrorDetails e p = Inr (e', p') \<longleftrightarrow>
     \<not> (truthy (get e ''maskErrorDetails'') \<and> truthy (get e ''rewriteError''))
     \<and> \<not> (truthy (get e ''rewriteError'') \<and> typeof (get e ''rewriteError'') \<noteq> ''function'')
     \<and> e' = (if truthy (get e ''maskErrorDetails'') then e(''maskErrorDetails'' := None) else e)
     \<and> p' = (if truthy (get e ''maskErrorDetails'')
              then p(''rewriteError'' \<mapsto> JFun MaskedRewrite)
              else if truthy (get e ''rewriteError'')
              then p(''rewriteError'' \<mapsto> get e ''rewriteError'')
              else p)(''generateClientInfo'' \<mapsto> get e ''generateClientInfo'')"
  by (auto simp: normalizeMaskErrorDetails_def get_del split: prod.splits)

lemma variables_Inl:
  "handlePrivateVariables e p = Inl err \<longleftrightarrow>
     get e ''privateVariables'' \<noteq> JUndefined \<and> truthy (get e ''sendVariableValues'')
     \<and> err = Error msg_private_variables"
  by (auto simp: handlePrivateVariables_def typeof_undefined_iff)

lemma variables_Inr:
  "handlePrivateVariables e p = Inr p' \<longleftrightarrow>
     \<not> (get e ''privateVariables'' \<noteq> JUndefined \<and> truthy (get e ''sendVariableValues''))
     \<and> p' = (if get e ''privateVariables'' = JUndefined
              then p(''sendVariableValues'' \<mapsto> get e ''sendVariableValues'')
              else if get e ''privateVariables'' = JNull then p
              else p(''sendVariableValues'' \<mapsto>
                       makeSendValuesBaseOptionsFromLegacy (get e ''privateVariables'')))"
  by (auto simp: handlePrivateVariables_def typeof_undefined_iff)

lemma headers_Inl:
  "handlePrivateHeaders e p = Inl err \<longleftrightarrow>
     get e ''privateHeaders'' \<noteq> JUndefined \<and> truthy (get e ''sendHeaders'')
     \<and> err = Error msg_private_headers"
  by (auto simp: handlePrivateHeaders_def typeof_undefined_iff)

lemma headers_Inr:
  "handlePrivateHeaders e p = Inr p' \<longleftrightarrow>
     \<not> (get e ''privateHeaders'' \<noteq> JUndefined \<and> truthy (get e ''sendHeaders''))
     \<and> p' = (if get e ''privateHeaders'' = JUndefined
              then p(''sendHeaders'' \<mapsto> get e ''sendHeaders'')
              else if get e ''privateHeaders'' = JNull then p
              else p(''sendHeaders'' \<mapsto>
                       makeSendValuesBaseOptionsFromLegacy (get e ''privateHeaders'')))"
  by (auto simp: handlePrivateHeaders_def typeof_undefined_iff)

lemma variables_after_delete:
  "handlePrivateVariables (e(''maskErrorDetails'' := None)) p = handlePrivateVariables e p"
  by (simp add: handlePrivateVariables_def get_del)

lemma headers_after_delete:
  "handlePrivateHeaders (e(''maskErrorDetails'' := None)) p = handlePrivateHeaders e p"
  by (simp add: handlePrivateHeaders_def get_del)



lemma legacy_seq:
  "legacyOptionsToPluginOptions e =
     (case normalizeMaskErrorDetails e (copyOptions e) of
        Inl err \<Rightarrow> (e, Inl err)
      | Inr (e', p) \<Rightarrow>
          (e', case handlePrivateVariables e p of
                 Inl err \<Rightarrow> Inl err
               | Inr p' \<Rightarrow> handlePrivateHeaders e p'))"
proof (cases "normalizeMaskErrorDetails e (copyOptions e)")
  case (Inl err)
  then show ?thesis
    by (simp add: legacyOptionsToPluginOptions_def)
next
  case (Inr ep)
  obtain e' p where ep: "ep = (e', p)"
    by (cases ep)
  from Inr ep have "e' = e \<or> e' = e(''maskErrorDetails'' := None)"
    by (simp add: mask_Inr)
  then have same: "handlePrivateVariables e' = handlePrivateVariables e"
      "handlePrivateHeaders e' = handlePrivateHeaders e"
    by (auto simp: variables_after_delete headers_after_delete)
  show ?thesis
    by (simp add: legacyOptionsToPluginOptions_def Inr ep same split: sum.splits)
qed


lemma outcome_Inr_stages:
  "snd (legacyOptionsToPluginOptions e) = Inr out \<longleftrightarrow>
     (\<exists>e1 p1 p2. normalizeMaskErrorDetails e (copyOptions e) = Inr (e1, p1)
        \<and> handlePrivateVariables e p1 = Inr p2
        \<and> handlePrivateHeaders e p2 = Inr out)"
  by (auto simp: legacy_seq split: sum.splits prod.splits)

lemma outcome_Inl_stages:
  "snd (legacyOptionsToPluginOptions e) = Inl err \<longleftrightarrow>
     normalizeMaskErrorDetails e (copyOptions e) = Inl err
     \<or> (\<exists>e1 p1. normalizeMaskErrorDetails e (copyOptions e) = Inr (e1, p1)
          \<and> (handlePrivateVariables e p1 = Inl err
             \<or> (\<exists>p2. handlePrivateVariables e p1 = Inr p2
                  \<and> handlePrivateHeaders e p2 = Inl err)))"
  by (auto simp: legacy_seq split: sum.splits prod.splits)

lemma outcome_Inl:
  "snd (legacyOptionsToPluginOptions e) = Inl err \<longleftrightarrow>
     (if truthy (get e ''maskErrorDetails'') \<and> truthy (get e ''rewriteError'')
      then err = Error msg_mask_rewrite
      else if truthy (get e ''rewriteError'')
              \<and> typeof (get e ''rewriteError'') \<noteq> ''function''
      then err = Error ''rewriteError must be a function''
      else if get e ''privateVariables'' \<noteq> JUndefined
              \<and> truthy (get e ''sendVariableValues'')
      then err = Error msg_private_variables
      else get e ''privateHeaders'' \<noteq> JUndefined \<and> truthy (get e ''sendHeaders'')
           \<and> err = Error msg_private_headers)"
  unfolding outcome_Inl_stages mask_Inl mask_Inr variables_Inl variables_Inr headers_Inl
  by auto

lemma outcome_succeeds:
  "(\<exists>out. snd (legacyOptionsToPluginOptions e) = Inr out) \<longleftrightarrow>
     \<not> (truthy (get e ''maskErrorDetails'') \<and> truthy (get e ''rewriteError''))
     \<and> \<not> (truthy (get e ''rewriteError'') \<and> typeof (get e ''rewriteError'') \<noteq> ''function'')
     \<and> \<not> (get e ''privateVariables'' \<noteq> JUndefined \<and> truthy (get e ''sendVariableValues''))
     \<and> \<not> (get e ''privateHeaders'' \<noteq> JUndefined \<and> truthy (get e ''sendHeaders''))"
  unfolding outcome_Inr_stages mask_Inr variables_Inr headers_Inr
  by auto

lemma engine_after:
  "fst (legacyOptionsToPluginOptions e) =
     (if truthy (get e ''maskErrorDetails'') \<and> \<not> truthy (get e ''rewriteError'')
      then e(''maskErrorDetails'' := None) else e)"
proof (cases "normalizeMaskErrorDetails e (copyOptions e)")
  case (Inl err)
  then have "fst (legacyOptionsToPluginOptions e) = e"
    by (simp add: legacy_seq)
  moreover from Inl have "truthy (get e ''rewriteError'')"
    by (auto simp: mask_Inl split: if_splits)
  ultimately show ?thesis
    by simp
next
  case (Inr ep)
  obtain e1 p1 where ep: "ep = (e1, p1)"
    by (cases ep)
  from Inr have "fst (legacyOptionsToPluginOptions e) = e1"
    by (simp add: legacy_seq ep)
  moreover from Inr ep
  have "e1 = (if truthy (get e ''maskErrorDetails'') then e(''maskErrorDetails'' := None) else e)"
    and "\<not> (truthy (get e ''maskErrorDetails'') \<and> truthy (get e ''rewriteError''))"
    by (simp_all add: mask_Inr)
  ultimately show ?thesis
    by auto
qed


lemma copyOptions_same:
  "k \<in> set [''calculateSignature'', ''reportIntervalMs'', ''maxUncompressedReportSize'',
      ''debugPrintReports'', ''requestAgent'', ''maxAttempts'', ''minimumRetryDelayMs'',
      ''reportErrorFunction'', ''sendVariableValues'', ''sendHeaders'',
      ''sendReportsImmediately''] \<Longrightarrow> copyOptions e k = Some (get e k)"
  by (auto simp: copyOptions_def Let_def)

lemma copyOptions_endpointUrl:
  "copyOptions e ''endpointUrl'' =
     Some (nullish (get e ''tracesEndpointUrl'') (get e ''endpointUrl''))"
  by (simp add: copyOptions_def Let_def)

lemma copyOptions_includeRequest:
  "copyOptions e ''includeRequest'' =
     (if typeof (get e ''reportTiming'') = ''function''
      then Some (get e ''reportTiming'') else None)"
  by (simp add: copyOptions_def Let_def)

lemma copyOptions_other:
  "k \<notin> set [''calculateSignature'', ''reportIntervalMs'', ''maxUncompressedReportSize'',
      ''endpointUrl'', ''debugPrintReports'', ''requestAgent'', ''maxAttempts'',
      ''minimumRetryDelayMs'', ''reportErrorFunction'', ''sendVariableValues'',
      ''includeRequest'', ''sendHeaders'', ''sendReportsImmediately'']
   \<Longrightarrow> copyOptions e k = None"
  by (simp add: copyOptions_def Let_def)

lemma outcome_InrE:
  assumes "snd (legacyOptionsToPluginOptions e) = Inr out"
  obtains p1 p2 where
    "p1 = (if truthy (get e ''maskErrorDetails'')
           then (copyOptions e)(''rewriteError'' \<mapsto> JFun MaskedRewrite)
           else if truthy (get e ''rewriteError'')
           then (copyOptions e)(''rewriteError'' \<mapsto> get e ''rewriteError'')
           else copyOptions e)(''generateClientInfo'' \<mapsto> get e ''generateClientInfo'')"
    and "p2 = (if get e ''privateVariables'' = JUndefined
               then p1(''sendVariableValues'' \<mapsto> get e ''sendVariableValues'')
               else if get e ''privateVariables'' = JNull then p1
               else p1(''sendVariableValues'' \<mapsto>
                         makeSendValuesBaseOptionsFromLegacy (get e ''privateVariables'')))"
    and "out = (if get e ''privateHeaders'' = JUndefined
                then p2(''sendHeaders'' \<mapsto> get e ''sendHeaders'')
                else if get e ''privateHeaders'' = JNull then p2
                else p2(''sendHeaders'' \<mapsto>
                          makeSendValuesBaseOptionsFromLegacy (get e ''privateHeaders'')))"
  using assms unfolding outcome_Inr_stages mask_Inr variables_Inr headers_Inr
  by blast

lemma out_sendVariableValues:
  assumes "snd (legacyOptionsToPluginOptions e) = Inr out"
  shows "out ''sendVariableValues'' =
     Some (if get e ''privateVariables'' = JUndefined \<or> get e ''privateVariables'' = JNull
           then get e ''sendVariableValues''
           else makeSendValuesBaseOptionsFromLegacy (get e ''privateVariables''))"
  using assms by (rule outcome_InrE) (simp add: copyOptions_same)

lemma out_sendHeaders:
  assumes "snd (legacyOptionsToPluginOptions e) = Inr out"
  shows "out ''sendHeaders'' =
     Some (if get e ''privateHeaders'' = JUndefined \<or> get e ''privateHeaders'' = JNull
           then get e ''sendHeaders''
           else makeSendValuesBaseOptionsFromLegacy (get e ''privateHeaders''))"
  using assms by (rule outcome_InrE) (simp add: copyOptions_same)

lemma out_rewriteError:
  assumes "snd (legacyOptionsToPluginOptions e) = Inr out"
  shows "out ''rewriteError'' =
     (if truthy (get e ''maskErrorDetails'') then Some (JFun MaskedRewrite)
      else if truthy (get e ''rewriteError'') then Some (get e ''rewriteError'')
      else None)"
  using assms by (rule outcome_InrE) (simp add: copyOptions_other)

lemma out_endpointUrl:
  assumes "snd (legacyOptionsToPluginOptions e) = Inr out"
  shows "out ''endpointUrl'' =
     Some (nullish (get e ''tracesEndpointUrl'') (get e ''endpointUrl''))"
  using assms by (rule outcome_InrE) (simp add: copyOptions_endpointUrl)

lemma out_includeRequest:
  assumes "snd (legacyOptionsToPluginOptions e) = Inr out"
  shows "out ''includeRequest'' =
     (if typeof (get e ''reportTiming'') = ''function''
      then Some (get e ''reportTiming'') else None)"
  using assms by (rule outcome_InrE) (simp add: copyOptions_includeRequest)

lemma out_generateClientInfo:
  assumes "snd (legacyOptionsToPluginOptions e) = Inr out"
  shows "out ''generateClientInfo'' = Some (get e ''generateClientInfo'')"
  using assms by (rule outcome_InrE) simp

lemma out_copied:
  assumes "snd (legacyOptionsToPluginOptions e) = Inr out"
    and "k \<in> set [''calculateSignature'', ''reportIntervalMs'', ''maxUncompressedReportSize'',
      ''debugPrintReports'', ''requestAgent'', ''maxAttempts'', ''minimumRetryDelayMs'',
      ''reportErrorFunction'', ''sendReportsImmediately'']"
  shows "out k = Some (get e k)"
proof -
  have "copyOptions e k = Some (get e k)"
    using assms(2) by (intro copyOptions_same) auto
  with assms(2) show ?thesis
    using assms(1) by (elim outcome_InrE) auto
qed

lemma out_other:
  assumes "snd (legacyOptionsToPluginOptions e) = Inr out"
    and "k \<notin> set [''calculateSignature'', ''reportIntervalMs'', ''maxUncompressedReportSize'',
      ''endpointUrl'', ''debugPrintReports'', ''requestAgent'', ''maxAttempts'',
      ''minimumRetryDelayMs'', ''reportErrorFunction'', ''sendVariableValues'',
      ''includeRequest'', ''sendHeaders'', ''sendReportsImmediately'', ''rewriteError'',
      ''generateClientInfo'']"
  shows "out k = None"
proof -
  have "copyOptions e k = None"
    using assms(2) by (intro copyOptions_other) auto
  with assms(2) show ?thesis
    using assms(1) by (elim outcome_InrE) auto
qed

lemma dom_subsetI: "(\<And>k. k \<notin> S \<Longrightarrow> m k = None) \<Longrightarrow> dom m \<subseteq> S"
  by (metis domIff subsetI)

section \<open>The claims\<close>

text \<open>
  C1. The call is to leave the object it is given as it was. Line 317, the only write to
  \<open>engine\<close> in the function, deletes \<open>maskErrorDetails\<close> from it. Below: the input of
  a call that returns is not what it was; a call that throws at line 328 has changed its
  input before throwing; and a second call on the object that the first call left no
  longer returns the masking \<open>rewriteError\<close> that the first call returned.
\<close>

theorem input_mutated_by_masking:
  "fst (legacyOptionsToPluginOptions [''maskErrorDetails'' \<mapsto> JBool True])
     \<noteq> [''maskErrorDetails'' \<mapsto> JBool True]
   \<and> snd (legacyOptionsToPluginOptions
        [''maskErrorDetails'' \<mapsto> JBool True, ''privateVariables'' \<mapsto> JBool True,
         ''sendVariableValues'' \<mapsto> JObj [(''all'', JBool True)]])
       = Inl (Error msg_private_variables)
   \<and> fst (legacyOptionsToPluginOptions
        [''maskErrorDetails'' \<mapsto> JBool True, ''privateVariables'' \<mapsto> JBool True,
         ''sendVariableValues'' \<mapsto> JObj [(''all'', JBool True)]])
       \<noteq> [''maskErrorDetails'' \<mapsto> JBool True, ''privateVariables'' \<mapsto> JBool True,
          ''sendVariableValues'' \<mapsto> JObj [(''all'', JBool True)]]
   \<and> projr (snd (legacyOptionsToPluginOptions [''maskErrorDetails'' \<mapsto> JBool True]))
        ''rewriteError'' = Some (JFun MaskedRewrite)
   \<and> \<not> isl (snd (legacyOptionsToPluginOptions
        (fst (legacyOptionsToPluginOptions [''maskErrorDetails'' \<mapsto> JBool True]))))
   \<and> projr (snd (legacyOptionsToPluginOptions
        (fst (legacyOptionsToPluginOptions [''maskErrorDetails'' \<mapsto> JBool True]))))
        ''rewriteError'' = None"
proof -
  let ?e = "[''maskErrorDetails'' \<mapsto> JBool True]"
  let ?e2 = "fst (legacyOptionsToPluginOptions ?e)"
  have differ: "f \<noteq> g" if "f ''maskErrorDetails'' = None" "g ''maskErrorDetails'' \<noteq> None"
    for f g :: jsobject
    using that by auto
  have first: "?e2 \<noteq> ?e"
    by (rule differ) (simp_all add: engine_after get_def)
  have thrown: "snd (legacyOptionsToPluginOptions
        [''maskErrorDetails'' \<mapsto> JBool True, ''privateVariables'' \<mapsto> JBool True,
         ''sendVariableValues'' \<mapsto> JObj [(''all'', JBool True)]])
       = Inl (Error msg_private_variables)"
    by (simp add: outcome_Inl get_def)
  have second: "fst (legacyOptionsToPluginOptions
        [''maskErrorDetails'' \<mapsto> JBool True, ''privateVariables'' \<mapsto> JBool True,
         ''sendVariableValues'' \<mapsto> JObj [(''all'', JBool True)]])
       \<noteq> [''maskErrorDetails'' \<mapsto> JBool True, ''privateVariables'' \<mapsto> JBool True,
          ''sendVariableValues'' \<mapsto> JObj [(''all'', JBool True)]]"
    by (rule differ) (simp_all add: engine_after get_def)
  have "\<exists>out. snd (legacyOptionsToPluginOptions ?e) = Inr out"
    by (simp add: outcome_succeeds get_def)
  then obtain out where out: "snd (legacyOptionsToPluginOptions ?e) = Inr out"
    by blast
  have masked: "out ''rewriteError'' = Some (JFun MaskedRewrite)"
    by (simp add: out_rewriteError [OF out] get_def)
  have reads: "get ?e2 k = JUndefined" for k
    by (simp add: engine_after get_def)
  have "\<exists>out. snd (legacyOptionsToPluginOptions ?e2) = Inr out"
    unfolding outcome_succeeds by (simp add: reads)
  then obtain out2 where out2: "snd (legacyOptionsToPluginOptions ?e2) = Inr out2"
    by blast
  have unmasked: "out2 ''rewriteError'' = None"
    by (simp add: out_rewriteError [OF out2] reads)
  from out masked have a: "projr (snd (legacyOptionsToPluginOptions ?e)) ''rewriteError''
      = Some (JFun MaskedRewrite)"
    by simp
  from out2 unmasked have b: "\<not> isl (snd (legacyOptionsToPluginOptions ?e2))"
    and c: "projr (snd (legacyOptionsToPluginOptions ?e2)) ''rewriteError'' = None"
    by simp_all
  show ?thesis
    by (intro conjI) (fact first thrown second a b c)+
qed

text \<open>
  C2. Claimed: with \<open>privateVariables\<close> \<open>null\<close> and \<open>sendVariableValues\<close> a rule, the call
  returns and passes the rule on. The test at line 325 is \<open>typeof \<dots> !== 'undefined'\<close>,
  which \<open>null\<close> passes, so the call throws.
\<close>

theorem null_privateVariables_with_rule_throws:
  "snd (legacyOptionsToPluginOptions
      [''privateVariables'' \<mapsto> JNull,
       ''sendVariableValues'' \<mapsto> JObj [(''all'', JBool True)]])
     = Inl (Error msg_private_variables)"
  by (simp add: outcome_Inl get_def)

text \<open>
  C2, amended. With \<open>privateVariables\<close> \<open>null\<close>: when \<open>sendVariableValues\<close> is truthy (any
  rule object is) the call throws, the conflict of the two options unless the check of
  \<open>maskErrorDetails\<close> and \<open>rewriteError\<close> has thrown before; when
  \<open>sendVariableValues\<close> is falsy, \<open>null\<close> counts as absent and a returned object holds the
  \<open>sendVariableValues\<close> of the input.
\<close>

theorem null_privateVariables:
  assumes "get e ''privateVariables'' = JNull"
  shows "(truthy (get e ''sendVariableValues'') \<longrightarrow>
           snd (legacyOptionsToPluginOptions e) = Inl (Error
             (if truthy (get e ''maskErrorDetails'') \<and> truthy (get e ''rewriteError'')
              then msg_mask_rewrite
              else if truthy (get e ''rewriteError'')
                      \<and> typeof (get e ''rewriteError'') \<noteq> ''function''
              then ''rewriteError must be a function''
              else msg_private_variables)))
       \<and> (\<not> truthy (get e ''sendVariableValues'') \<longrightarrow>
           (\<forall>out. snd (legacyOptionsToPluginOptions e) = Inr out \<longrightarrow>
              out ''sendVariableValues'' = Some (get e ''sendVariableValues'')))"
  using assms by (simp add: outcome_Inl out_sendVariableValues)

theorem null_privateVariables_witness:
  "get [''privateVariables'' \<mapsto> JNull,
        ''sendVariableValues'' \<mapsto> JObj [(''onlyNames'', JArr [JStr ''id''])]]
       ''privateVariables'' = JNull
   \<and> truthy (get [''privateVariables'' \<mapsto> JNull,
        ''sendVariableValues'' \<mapsto> JObj [(''onlyNames'', JArr [JStr ''id''])]]
       ''sendVariableValues'')
   \<and> snd (legacyOptionsToPluginOptions
        [''privateVariables'' \<mapsto> JNull,
         ''sendVariableValues'' \<mapsto> JObj [(''onlyNames'', JArr [JStr ''id''])]])
       = Inl (Error msg_private_variables)
   \<and> get [''privateVariables'' \<mapsto> JNull] ''privateVariables'' = JNull
   \<and> \<not> truthy (get [''privateVariables'' \<mapsto> JNull] ''sendVariableValues'')
   \<and> \<not> isl (snd (legacyOptionsToPluginOptions [''privateVariables'' \<mapsto> JNull]))
   \<and> projr (snd (legacyOptionsToPluginOptions [''privateVariables'' \<mapsto> JNull]))
        ''sendVariableValues'' = Some JUndefined"
proof -
  have ok: "\<exists>out. snd (legacyOptionsToPluginOptions [''privateVariables'' \<mapsto> JNull]) = Inr out"
    by (simp add: outcome_succeeds get_def)
  then obtain out
    where out: "snd (legacyOptionsToPluginOptions [''privateVariables'' \<mapsto> JNull]) = Inr out"
    by blast
  show ?thesis
    using null_privateVariables
            [of "[''privateVariables'' \<mapsto> JNull,
                  ''sendVariableValues'' \<mapsto> JObj [(''onlyNames'', JArr [JStr ''id''])]]"]
          null_privateVariables [of "[''privateVariables'' \<mapsto> JNull]"] out
    by (simp add: get_def)
qed

text \<open>
  C3. Claimed: setting a deprecated option together with its replacement always makes
  the call throw, also for \<open>endpointUrl\<close> and \<open>tracesEndpointUrl\<close>. Line 295 reads
  \<open>engine.tracesEndpointUrl ?? engine.endpointUrl\<close>: with both set the call returns and
  \<open>tracesEndpointUrl\<close> wins.
\<close>

theorem both_endpoint_urls_returns:
  "\<not> isl (snd (legacyOptionsToPluginOptions
        [''endpointUrl'' \<mapsto> JStr ''old'', ''tracesEndpointUrl'' \<mapsto> JStr ''new'']))
   \<and> projr (snd (legacyOptionsToPluginOptions
        [''endpointUrl'' \<mapsto> JStr ''old'', ''tracesEndpointUrl'' \<mapsto> JStr ''new'']))
       ''endpointUrl'' = Some (JStr ''new'')"
proof -
  have "\<exists>out. snd (legacyOptionsToPluginOptions
        [''endpointUrl'' \<mapsto> JStr ''old'', ''tracesEndpointUrl'' \<mapsto> JStr ''new'']) = Inr out"
    by (simp add: outcome_succeeds get_def)
  then obtain out where out: "snd (legacyOptionsToPluginOptions
        [''endpointUrl'' \<mapsto> JStr ''old'', ''tracesEndpointUrl'' \<mapsto> JStr ''new'']) = Inr out"
    by blast
  from out_endpointUrl [OF out] out show ?thesis
    by (simp add: get_def)
qed

text \<open>
  C3, amended. The call throws exactly when \<open>maskErrorDetails\<close> and \<open>rewriteError\<close> are
  both truthy, or \<open>rewriteError\<close> is truthy and not a function, or \<open>privateVariables\<close> is
  not \<open>undefined\<close> and \<open>sendVariableValues\<close> is truthy, or \<open>privateHeaders\<close> is not
  \<open>undefined\<close> and \<open>sendHeaders\<close> is truthy. The two endpoint options never make it throw:
  a returned object holds \<open>tracesEndpointUrl\<close> as its \<open>endpointUrl\<close>, and the deprecated
  \<open>endpointUrl\<close> when \<open>tracesEndpointUrl\<close> is \<open>null\<close> or \<open>undefined\<close>.
\<close>

theorem deprecated_pairs:
  "((\<exists>err. snd (legacyOptionsToPluginOptions e) = Inl err) \<longleftrightarrow>
      truthy (get e ''maskErrorDetails'') \<and> truthy (get e ''rewriteError'')
      \<or> truthy (get e ''rewriteError'') \<and> typeof (get e ''rewriteError'') \<noteq> ''function''
      \<or> get e ''privateVariables'' \<noteq> JUndefined \<and> truthy (get e ''sendVariableValues'')
      \<or> get e ''privateHeaders'' \<noteq> JUndefined \<and> truthy (get e ''sendHeaders''))
   \<and> (\<forall>out. snd (legacyOptionsToPluginOptions e) = Inr out \<longrightarrow>
         out ''endpointUrl'' =
           Some (nullish (get e ''tracesEndpointUrl'') (get e ''endpointUrl'')))"
  by (auto simp: outcome_Inl out_endpointUrl)

theorem deprecated_pairs_witness:
  "isl (snd (legacyOptionsToPluginOptions
      [''privateHeaders'' \<mapsto> JArr [JStr ''x-token''], ''sendHeaders'' \<mapsto> JObj [(''all'', JBool True)]]))
   \<and> \<not> isl (snd (legacyOptionsToPluginOptions [''endpointUrl'' \<mapsto> JStr ''old'']))
   \<and> projr (snd (legacyOptionsToPluginOptions [''endpointUrl'' \<mapsto> JStr ''old'']))
        ''endpointUrl'' = Some (JStr ''old'')"
proof -
  have "\<exists>out. snd (legacyOptionsToPluginOptions [''endpointUrl'' \<mapsto> JStr ''old'']) = Inr out"
    by (simp add: outcome_succeeds get_def)
  then obtain out
    where out: "snd (legacyOptionsToPluginOptions [''endpointUrl'' \<mapsto> JStr ''old'']) = Inr out"
    by blast
  have "\<exists>err. snd (legacyOptionsToPluginOptions
      [''privateHeaders'' \<mapsto> JArr [JStr ''x-token''],
       ''sendHeaders'' \<mapsto> JObj [(''all'', JBool True)]]) = Inl err"
    using deprecated_pairs
      [of "[''privateHeaders'' \<mapsto> JArr [JStr ''x-token''],
            ''sendHeaders'' \<mapsto> JObj [(''all'', JBool True)]]"]
    by (simp add: get_def)
  then have "isl (snd (legacyOptionsToPluginOptions
      [''privateHeaders'' \<mapsto> JArr [JStr ''x-token''],
       ''sendHeaders'' \<mapsto> JObj [(''all'', JBool True)]]))"
    by auto
  then show ?thesis
    using deprecated_pairs [of "[''endpointUrl'' \<mapsto> JStr ''old'']"] out
    by (simp add: get_def)
qed

text \<open>
  C4. Claimed: with \<open>privateVariables\<close> set to a value other than \<open>null\<close> and
  \<open>sendVariableValues\<close> set to a rule, the call always throws the error of the conflict
  of the two options. The checks run in the order of the source: with a \<open>rewriteError\<close>
  that is not a function set as well, lines 313 and 314 throw
  \<open>rewriteError must be a function\<close> before line 324 is reached.
\<close>

theorem earlier_check_throws_first:
  "snd (legacyOptionsToPluginOptions
      [''privateVariables'' \<mapsto> JBool True,
       ''sendVariableValues'' \<mapsto> JObj [(''all'', JBool True)],
       ''rewriteError'' \<mapsto> JStr ''oops''])
     = Inl (Error ''rewriteError must be a function'')
   \<and> snd (legacyOptionsToPluginOptions
      [''privateVariables'' \<mapsto> JBool True,
       ''sendVariableValues'' \<mapsto> JObj [(''all'', JBool True)],
       ''rewriteError'' \<mapsto> JStr ''oops''])
     \<noteq> Inl (Error msg_private_variables)"
  by (simp add: outcome_Inl get_def msg_private_variables_def)

text \<open>
  C4, amended. With \<open>privateVariables\<close> set to a value other than \<open>null\<close> and
  \<open>sendVariableValues\<close> set to a rule (any truthy value; every object is one), the call
  throws, whatever the two values are: the error of line 328, unless the check of
  \<open>maskErrorDetails\<close> and \<open>rewriteError\<close> at lines 311 to 314 has thrown before, and
  then the error of that check. The same holds for \<open>privateHeaders\<close> and \<open>sendHeaders\<close>
  with the error of line 345, which the earlier checks of lines 311 to 314 and of line 324
  precede.
\<close>

theorem both_private_and_send_throws:
  "(get e ''privateVariables'' \<noteq> JUndefined \<and> get e ''privateVariables'' \<noteq> JNull
      \<and> truthy (get e ''sendVariableValues'') \<longrightarrow>
        snd (legacyOptionsToPluginOptions e) = Inl (Error
          (if truthy (get e ''maskErrorDetails'') \<and> truthy (get e ''rewriteError'')
           then msg_mask_rewrite
           else if truthy (get e ''rewriteError'')
                   \<and> typeof (get e ''rewriteError'') \<noteq> ''function''
           then ''rewriteError must be a function''
           else msg_private_variables)))
   \<and> (get e ''privateHeaders'' \<noteq> JUndefined \<and> get e ''privateHeaders'' \<noteq> JNull
      \<and> truthy (get e ''sendHeaders'') \<longrightarrow>
        snd (legacyOptionsToPluginOptions e) = Inl (Error
          (if truthy (get e ''maskErrorDetails'') \<and> truthy (get e ''rewriteError'')
           then msg_mask_rewrite
           else if truthy (get e ''rewriteError'')
                   \<and> typeof (get e ''rewriteError'') \<noteq> ''function''
           then ''rewriteError must be a function''
           else if get e ''privateVariables'' \<noteq> JUndefined
                   \<and> truthy (get e ''sendVariableValues'')
           then msg_private_variables
           else msg_private_headers)))"
  by (simp add: outcome_Inl)

theorem both_private_and_send_throws_witness:
  "snd (legacyOptionsToPluginOptions
      [''privateVariables'' \<mapsto> JArr [JStr ''password''],
       ''sendVariableValues'' \<mapsto> JObj [(''onlyNames'', JArr [JStr ''id''])]])
     = Inl (Error msg_private_variables)
   \<and> snd (legacyOptionsToPluginOptions
      [''privateHeaders'' \<mapsto> JBool False, ''sendHeaders'' \<mapsto> JObj [(''none'', JBool True)]])
     = Inl (Error msg_private_headers)"
  using both_private_and_send_throws
      [of "[''privateVariables'' \<mapsto> JArr [JStr ''password''],
            ''sendVariableValues'' \<mapsto> JObj [(''onlyNames'', JArr [JStr ''id''])]]"]
    both_private_and_send_throws
      [of "[''privateHeaders'' \<mapsto> JBool False,
            ''sendHeaders'' \<mapsto> JObj [(''none'', JBool True)]]"]
  by (simp add: get_def)





text \<open>
  C7. With \<open>maskErrorDetails\<close> \<open>true\<close> and \<open>rewriteError\<close> a function the call throws the
  error of line 312, whose message names both options, and leaves the input as it was.
\<close>

theorem mask_and_rewrite_conflict:
  "get e ''maskErrorDetails'' = JBool True \<Longrightarrow> get e ''rewriteError'' = JFun f \<Longrightarrow>
   legacyOptionsToPluginOptions e =
     (e, Inl (Error ''Can't set both maskErrorDetails and rewriteError!''))"
  by (simp add: legacy_seq normalizeMaskErrorDetails_def msg_mask_rewrite_def)

theorem mask_and_rewrite_conflict_witness:
  "get [''maskErrorDetails'' \<mapsto> JBool True, ''rewriteError'' \<mapsto> JFun (External 0)]
       ''maskErrorDetails'' = JBool True
   \<and> get [''maskErrorDetails'' \<mapsto> JBool True, ''rewriteError'' \<mapsto> JFun (External 0)]
       ''rewriteError'' = JFun (External 0)
   \<and> legacyOptionsToPluginOptions
       [''maskErrorDetails'' \<mapsto> JBool True, ''rewriteError'' \<mapsto> JFun (External 0)] =
     ([''maskErrorDetails'' \<mapsto> JBool True, ''rewriteError'' \<mapsto> JFun (External 0)],
      Inl (Error ''Can't set both maskErrorDetails and rewriteError!''))"
  using mask_and_rewrite_conflict
    [of "[''maskErrorDetails'' \<mapsto> JBool True, ''rewriteError'' \<mapsto> JFun (External 0)]"
        "External 0"]
  by (simp add: get_def)

text \<open>
  C8. Claimed: any value of \<open>rewriteError\<close> that is not a function makes the call throw
  \<open>rewriteError must be a function\<close>. The test at line 313 starts with
  \<open>engine.rewriteError &&\<close>: with \<open>false\<close> the call returns, and with
  \<open>maskErrorDetails\<close> set too the error is the one of line 312.
\<close>

theorem falsy_rewriteError_returns:
  "\<not> isl (snd (legacyOptionsToPluginOptions [''rewriteError'' \<mapsto> JBool False]))
   \<and> snd (legacyOptionsToPluginOptions
        [''maskErrorDetails'' \<mapsto> JBool True, ''rewriteError'' \<mapsto> JStr ''mask''])
       = Inl (Error msg_mask_rewrite)"
proof -
  have "\<exists>out. snd (legacyOptionsToPluginOptions [''rewriteError'' \<mapsto> JBool False]) = Inr out"
    by (simp add: outcome_succeeds get_def)
  then show ?thesis
    by (auto simp: outcome_Inl get_def)
qed

text \<open>
  C8, amended. A truthy value of \<open>rewriteError\<close> that is not a function makes the call
  throw: \<open>rewriteError must be a function\<close> when \<open>maskErrorDetails\<close> is falsy, the error of
  line 312 when it is truthy. A falsy value of \<open>rewriteError\<close> never leads to the error
  \<open>rewriteError must be a function\<close>.
\<close>

theorem non_function_rewriteError:
  assumes "typeof (get e ''rewriteError'') \<noteq> ''function''"
  shows "(truthy (get e ''rewriteError'') \<longrightarrow>
            snd (legacyOptionsToPluginOptions e) = Inl (Error
              (if truthy (get e ''maskErrorDetails'') then msg_mask_rewrite
               else ''rewriteError must be a function'')))
       \<and> (\<not> truthy (get e ''rewriteError'') \<longrightarrow>
            snd (legacyOptionsToPluginOptions e)
              \<noteq> Inl (Error ''rewriteError must be a function''))"
  using assms
  by (simp add: outcome_Inl msg_mask_rewrite_def msg_private_variables_def
        msg_private_headers_def)

theorem non_function_rewriteError_witness:
  "typeof (get [''rewriteError'' \<mapsto> JStr ''mask''] ''rewriteError'') \<noteq> ''function''
   \<and> truthy (get [''rewriteError'' \<mapsto> JStr ''mask''] ''rewriteError'')
   \<and> snd (legacyOptionsToPluginOptions [''rewriteError'' \<mapsto> JStr ''mask''])
       = Inl (Error ''rewriteError must be a function'')
   \<and> typeof (get [''rewriteError'' \<mapsto> JNum 0] ''rewriteError'') \<noteq> ''function''
   \<and> \<not> truthy (get [''rewriteError'' \<mapsto> JNum 0] ''rewriteError'')
   \<and> snd (legacyOptionsToPluginOptions [''rewriteError'' \<mapsto> JNum 0])
       \<noteq> Inl (Error ''rewriteError must be a function'')"
  using non_function_rewriteError [of "[''rewriteError'' \<mapsto> JStr ''mask'']"]
    non_function_rewriteError [of "[''rewriteError'' \<mapsto> JNum 0]"]
  by (simp add: get_def)

text \<open>
  C9. Claimed: with no deprecated option set, the call returns the input restricted to
  its current options. With \<open>tracesEndpointUrl\<close> and a boolean \<open>reportTiming\<close> the call
  returns an object that holds neither under its name: the URL is stored as
  \<open>endpointUrl\<close>, the boolean is dropped (line 302). With a \<open>rewriteError\<close> that is not a
  function the call throws.
\<close>

theorem current_options_not_passed_through:
  "\<not> isl (snd (legacyOptionsToPluginOptions
        [''tracesEndpointUrl'' \<mapsto> JStr ''new'', ''reportTiming'' \<mapsto> JBool True]))
   \<and> projr (snd (legacyOptionsToPluginOptions
        [''tracesEndpointUrl'' \<mapsto> JStr ''new'', ''reportTiming'' \<mapsto> JBool True]))
       ''tracesEndpointUrl'' = None
   \<and> projr (snd (legacyOptionsToPluginOptions
        [''tracesEndpointUrl'' \<mapsto> JStr ''new'', ''reportTiming'' \<mapsto> JBool True]))
       ''endpointUrl'' = Some (JStr ''new'')
   \<and> projr (snd (legacyOptionsToPluginOptions
        [''tracesEndpointUrl'' \<mapsto> JStr ''new'', ''reportTiming'' \<mapsto> JBool True]))
       ''reportTiming'' = None
   \<and> projr (snd (legacyOptionsToPluginOptions
        [''tracesEndpointUrl'' \<mapsto> JStr ''new'', ''reportTiming'' \<mapsto> JBool True]))
       ''includeRequest'' = None
   \<and> snd (legacyOptionsToPluginOptions [''rewriteError'' \<mapsto> JStr ''mask''])
       = Inl (Error ''rewriteError must be a function'')"
proof -
  have "\<exists>out. snd (legacyOptionsToPluginOptions
        [''tracesEndpointUrl'' \<mapsto> JStr ''new'', ''reportTiming'' \<mapsto> JBool True]) = Inr out"
    by (simp add: outcome_succeeds get_def)
  then obtain out where out: "snd (legacyOptionsToPluginOptions
        [''tracesEndpointUrl'' \<mapsto> JStr ''new'', ''reportTiming'' \<mapsto> JBool True]) = Inr out"
    by blast
  have "out ''tracesEndpointUrl'' = None" "out ''reportTiming'' = None"
    by (rule out_other [OF out], simp)+
  moreover have "out ''endpointUrl'' = Some (JStr ''new'')" "out ''includeRequest'' = None"
    by (simp_all add: out_endpointUrl [OF out] out_includeRequest [OF out] get_def)
  moreover have "snd (legacyOptionsToPluginOptions [''rewriteError'' \<mapsto> JStr ''mask''])
       = Inl (Error ''rewriteError must be a function'')"
    by (simp add: outcome_Inl get_def)
  ultimately show ?thesis
    using out by simp
qed

text \<open>
  C9, amended. With no deprecated option set and \<open>rewriteError\<close> a function or falsy,
  the call returns and leaves the input as it was. The returned object holds the twelve
  options of \<open>passThroughFields\<close> as the input has them, \<open>tracesEndpointUrl\<close> under the
  name \<open>endpointUrl\<close> (\<open>undefined\<close> when it is \<open>null\<close>), \<open>reportTiming\<close> under the name
  \<open>includeRequest\<close> when it is a function and not at all otherwise, \<open>rewriteError\<close> when
  it is truthy, and nothing else.
\<close>

theorem no_deprecated_option_copied:
  assumes "get e ''endpointUrl'' = JUndefined"
    and "get e ''maskErrorDetails'' = JUndefined"
    and "get e ''privateVariables'' = JUndefined"
    and "get e ''privateHeaders'' = JUndefined"
    and "typeof (get e ''rewriteError'') = ''function'' \<or> \<not> truthy (get e ''rewriteError'')"
  shows "\<exists>out. legacyOptionsToPluginOptions e = (e, Inr out)
     \<and> (\<forall>k \<in> set passThroughFields. out k = Some (get e k))
     \<and> out ''endpointUrl'' = Some (nullish (get e ''tracesEndpointUrl'') JUndefined)
     \<and> out ''includeRequest'' =
         (if typeof (get e ''reportTiming'') = ''function''
          then Some (get e ''reportTiming'') else None)
     \<and> out ''rewriteError'' =
         (if truthy (get e ''rewriteError'') then Some (get e ''rewriteError'') else None)
     \<and> dom out \<subseteq> set passThroughFields \<union> {''endpointUrl'', ''includeRequest'', ''rewriteError''}"
proof -
  from assms have "\<exists>out. snd (legacyOptionsToPluginOptions e) = Inr out"
    unfolding outcome_succeeds by auto
  then obtain out where out: "snd (legacyOptionsToPluginOptions e) = Inr out"
    by blast
  from assms(2) have "fst (legacyOptionsToPluginOptions e) = e"
    by (simp add: engine_after)
  with out have whole: "legacyOptionsToPluginOptions e = (e, Inr out)"
    by (simp add: prod_eq_iff)
  have copied: "\<forall>k \<in> set passThroughFields. out k = Some (get e k)"
    using out_copied [OF out] assms(3,4)
    by (simp add: passThroughFields_def out_sendVariableValues [OF out]
          out_sendHeaders [OF out] out_generateClientInfo [OF out])
  have url: "out ''endpointUrl'' = Some (nullish (get e ''tracesEndpointUrl'') JUndefined)"
    using assms(1) by (simp add: out_endpointUrl [OF out])
  have rewrite: "out ''rewriteError'' =
         (if truthy (get e ''rewriteError'') then Some (get e ''rewriteError'') else None)"
    using assms(2) by (simp add: out_rewriteError [OF out])
  have "dom out \<subseteq> set passThroughFields \<union> {''endpointUrl'', ''includeRequest'', ''rewriteError''}"
  proof (rule dom_subsetI)
    fix k
    assume "k \<notin> set passThroughFields \<union> {''endpointUrl'', ''includeRequest'', ''rewriteError''}"
    then have "k \<notin> set [''calculateSignature'', ''reportIntervalMs'',
        ''maxUncompressedReportSize'', ''endpointUrl'', ''debugPrintReports'', ''requestAgent'',
        ''maxAttempts'', ''minimumRetryDelayMs'', ''reportErrorFunction'',
        ''sendVariableValues'', ''includeRequest'', ''sendHeaders'', ''sendReportsImmediately'',
        ''rewriteError'', ''generateClientInfo'']"
      unfolding passThroughFields_def by simp
    then show "out k = None"
      by (rule out_other [OF out])
  qed
  with whole copied url rewrite out_includeRequest [OF out] show ?thesis
    by blast
qed


theorem no_deprecated_option_copied_witness:
  "get [''tracesEndpointUrl'' \<mapsto> JStr ''new'', ''maxAttempts'' \<mapsto> JNum 3,
        ''reportTiming'' \<mapsto> JFun (External 1)] ''endpointUrl'' = JUndefined
   \<and> \<not> truthy (get [''tracesEndpointUrl'' \<mapsto> JStr ''new'', ''maxAttempts'' \<mapsto> JNum 3,
        ''reportTiming'' \<mapsto> JFun (External 1)] ''rewriteError'')
   \<and> (\<exists>out. legacyOptionsToPluginOptions
          [''tracesEndpointUrl'' \<mapsto> JStr ''new'', ''maxAttempts'' \<mapsto> JNum 3,
           ''reportTiming'' \<mapsto> JFun (External 1)]
        = ([''tracesEndpointUrl'' \<mapsto> JStr ''new'', ''maxAttempts'' \<mapsto> JNum 3,
            ''reportTiming'' \<mapsto> JFun (External 1)], Inr out)
      \<and> out ''maxAttempts'' = Some (JNum 3)
      \<and> out ''endpointUrl'' = Some (JStr ''new'')
      \<and> out ''includeRequest'' = Some (JFun (External 1))
      \<and> out ''rewriteError'' = None
      \<and> out ''tracesEndpointUrl'' = None)"
proof -
  let ?e = "[''tracesEndpointUrl'' \<mapsto> JStr ''new'', ''maxAttempts'' \<mapsto> JNum 3,
             ''reportTiming'' \<mapsto> JFun (External 1)]"
  have "\<exists>out. legacyOptionsToPluginOptions ?e = (?e, Inr out)
     \<and> (\<forall>k \<in> set passThroughFields. out k = Some (get ?e k))
     \<and> out ''endpointUrl'' = Some (nullish (get ?e ''tracesEndpointUrl'') JUndefined)
     \<and> out ''includeRequest'' =
         (if typeof (get ?e ''reportTiming'') = ''function''
          then Some (get ?e ''reportTiming'') else None)
     \<and> out ''rewriteError'' =
         (if truthy (get ?e ''rewriteError'') then Some (get ?e ''rewriteError'') else None)
     \<and> dom out \<subseteq> set passThroughFields \<union> {''endpointUrl'', ''includeRequest'', ''rewriteError''}"
    by (rule no_deprecated_option_copied) (simp_all add: get_def)
  then obtain out where whole: "legacyOptionsToPluginOptions ?e = (?e, Inr out)"
    and copied: "\<forall>k \<in> set passThroughFields. out k = Some (get ?e k)"
    and url: "out ''endpointUrl'' = Some (JStr ''new'')"
    and request: "out ''includeRequest'' = Some (JFun (External 1))"
    and rewrite: "out ''rewriteError'' = None"
    and dom: "dom out \<subseteq> set passThroughFields \<union> {''endpointUrl'', ''includeRequest'', ''rewriteError''}"
    by (auto simp: get_def)
  from copied have "out ''maxAttempts'' = Some (JNum 3)"
    by (simp add: passThroughFields_def get_def)
  moreover from dom have "out ''tracesEndpointUrl'' = None"
    by (auto simp: passThroughFields_def dom_def)
  ultimately show ?thesis
    using whole url request rewrite by (simp add: get_def)
qed

text \<open>
  C10. The schema reporting and logging options of the input are not read and not
  written: two inputs that differ only in these options give the same error or the same
  returned object, a returned object has none of them, and the call leaves them in the
  input as they were.
\<close>

theorem schema_reporting_fields_ignored:
  assumes "\<forall>k. k \<notin> set schemaReportingFields \<longrightarrow> e k = e' k"
  shows "snd (legacyOptionsToPluginOptions e) = snd (legacyOptionsToPluginOptions e')
     \<and> (\<forall>k \<in> set schemaReportingFields.
           (\<forall>out. snd (legacyOptionsToPluginOptions e) = Inr out \<longrightarrow> out k = None)
           \<and> fst (legacyOptionsToPluginOptions e) k = e k)"
proof (intro conjI ballI allI impI)
  have reads: "get e' k = get e k" if "k \<notin> set schemaReportingFields" for k
    using assms that by (simp add: get_def)
  have copy: "copyOptions e' = copyOptions e"
    by (simp add: copyOptions_def Let_def reads schemaReportingFields_def cong: if_cong)
  have thrown: "snd (legacyOptionsToPluginOptions e') = Inl err
      \<longleftrightarrow> snd (legacyOptionsToPluginOptions e) = Inl err" for err
    by (simp add: outcome_Inl reads schemaReportingFields_def)
  have returned: "snd (legacyOptionsToPluginOptions e') = Inr out
      \<longleftrightarrow> snd (legacyOptionsToPluginOptions e) = Inr out" for out
    unfolding outcome_Inr_stages mask_Inr variables_Inr headers_Inr
    by (simp add: reads copy schemaReportingFields_def)
  show "snd (legacyOptionsToPluginOptions e) = snd (legacyOptionsToPluginOptions e')"
  proof (cases "snd (legacyOptionsToPluginOptions e)")
    case (Inl err)
    then show ?thesis
      using thrown [of err] by simp
  next
    case (Inr out)
    then show ?thesis
      using returned [of out] by simp
  qed
next
  fix k out
  assume k: "k \<in> set schemaReportingFields"
    and out: "snd (legacyOptionsToPluginOptions e) = Inr out"
  from k have "k \<notin> set [''calculateSignature'', ''reportIntervalMs'',
        ''maxUncompressedReportSize'', ''endpointUrl'', ''debugPrintReports'', ''requestAgent'',
        ''maxAttempts'', ''minimumRetryDelayMs'', ''reportErrorFunction'',
        ''sendVariableValues'', ''includeRequest'', ''sendHeaders'', ''sendReportsImmediately'',
        ''rewriteError'', ''generateClientInfo'']"
    unfolding schemaReportingFields_def by auto
  then show "out k = None"
    by (rule out_other [OF out])
next
  fix k
  assume "k \<in> set schemaReportingFields"
  then have "k \<noteq> ''maskErrorDetails''"
    unfolding schemaReportingFields_def by auto
  then show "fst (legacyOptionsToPluginOptions e) k = e k"
    by (simp add: engine_after)
qed

theorem schema_reporting_fields_ignored_witness:
  "snd (legacyOptionsToPluginOptions
      [''maxAttempts'' \<mapsto> JNum 3, ''reportSchema'' \<mapsto> JBool True,
       ''logger'' \<mapsto> JObj []])
     = snd (legacyOptionsToPluginOptions [''maxAttempts'' \<mapsto> JNum 3])
   \<and> \<not> isl (snd (legacyOptionsToPluginOptions
      [''maxAttempts'' \<mapsto> JNum 3, ''reportSchema'' \<mapsto> JBool True,
       ''logger'' \<mapsto> JObj []]))
   \<and> projr (snd (legacyOptionsToPluginOptions
      [''maxAttempts'' \<mapsto> JNum 3, ''reportSchema'' \<mapsto> JBool True,
       ''logger'' \<mapsto> JObj []])) ''reportSchema'' = None
   \<and> projr (snd (legacyOptionsToPluginOptions
      [''maxAttempts'' \<mapsto> JNum 3, ''reportSchema'' \<mapsto> JBool True,
       ''logger'' \<mapsto> JObj []])) ''logger'' = None
   \<and> fst (legacyOptionsToPluginOptions
      [''maxAttempts'' \<mapsto> JNum 3, ''reportSchema'' \<mapsto> JBool True,
       ''logger'' \<mapsto> JObj []]) ''logger'' = Some (JObj [])"
proof -
  let ?e = "[''maxAttempts'' \<mapsto> JNum 3, ''reportSchema'' \<mapsto> JBool True,
             ''logger'' \<mapsto> JObj []]"
  let ?e' = "[''maxAttempts'' \<mapsto> JNum 3]"
  have agree: "\<forall>k. k \<notin> set schemaReportingFields \<longrightarrow> ?e k = ?e' k"
    by (simp add: schemaReportingFields_def)
  note ignored = schema_reporting_fields_ignored [OF agree]
  have "\<exists>out. snd (legacyOptionsToPluginOptions ?e) = Inr out"
    by (simp add: outcome_succeeds get_def)
  then obtain out where out: "snd (legacyOptionsToPluginOptions ?e) = Inr out"
    by blast
  have same: "snd (legacyOptionsToPluginOptions ?e) = snd (legacyOptionsToPluginOptions ?e')"
    using ignored by (rule conjunct1)
  have each: "\<forall>k \<in> set schemaReportingFields.
           (\<forall>out. snd (legacyOptionsToPluginOptions ?e) = Inr out \<longrightarrow> out k = None)
           \<and> fst (legacyOptionsToPluginOptions ?e) k = ?e k"
    using ignored by (rule conjunct2)
  have "''reportSchema'' \<in> set schemaReportingFields" "''logger'' \<in> set schemaReportingFields"
    by (simp_all add: schemaReportingFields_def)
  with each out have absent: "out ''reportSchema'' = None" "out ''logger'' = None"
    and kept: "fst (legacyOptionsToPluginOptions ?e) ''logger'' = ?e ''logger''"
    by blast+
  from out have returned: "\<not> isl (snd (legacyOptionsToPluginOptions ?e))"
    and result: "projr (snd (legacyOptionsToPluginOptions ?e)) = out"
    by simp_all
  show ?thesis
  proof (intro conjI)
    show "snd (legacyOptionsToPluginOptions ?e) = snd (legacyOptionsToPluginOptions ?e')"
      by (rule same)
    show "\<not> isl (snd (legacyOptionsToPluginOptions ?e))"
      by (rule returned)
    show "projr (snd (legacyOptionsToPluginOptions ?e)) ''reportSchema'' = None"
      "projr (snd (legacyOptionsToPluginOptions ?e)) ''logger'' = None"
      unfolding result by (fact absent)+
    show "fst (legacyOptionsToPluginOptions ?e) ''logger'' = Some (JObj [])"
      using kept by simp
  qed
qed

end
